theory Spec2Isabelle
  imports Complex_Main
begin

section \<open>Values shared by the dialogs and the payment routes\<close>

text \<open>
  In the dialogs a JavaScript \<open>number\<close> is only compared and subtracted: it is kept as the
  exact rational it denotes. The payment routes multiply and round; their numbers are
  doubles, modelled further below.
\<close>

type_synonym number = rat

text \<open>A value caught by \<open>catch (error)\<close>: an \<open>Error\<close> with its message, or anything else.\<close>

datatype thrown = Error string | NonError

text \<open>The result of an awaited call: the promise resolves with a value or rejects.\<close>

datatype 'a outcome = Resolved 'a | Rejected thrown

section \<open>The purchase dialogs\<close>

text \<open>
  A template literal is kept as its pieces: literal text, and numbers printed with
  \<open>toFixed(2)\<close>.
\<close>

datatype piece = Str string | Fixed2 number

datatype variant = Default_variant | Destructive

record toast =
  title :: string
  description :: "piece list"
  variant :: variant

record user =
  user_id :: string

record deck =
  deck_id :: string
  deck_title :: string
  price :: number

text \<open>The component state the handlers read and write (\<open>useState\<close>).\<close>

record dialog_state =
  userBalance :: number
  isPurchasing :: bool

text \<open>What a handler does besides updating the component state, in order.\<close>

datatype ui_effect =
    ShowToast toast
  | ConsoleError string thrown
  | CallPurchaseDeck string string number
  | CallProcessDeckPurchase string string number
  | CallCreateCreditCheckoutSession string number
  | SetLocationHref string
  | OnClose

definition sign_in_toast :: "string \<Rightarrow> toast" where
  "sign_in_toast d =
     \<lparr>title = ''Sign in required'', description = [Str d], variant = Destructive\<rparr>"

definition success_toast :: toast where
  "success_toast =
     \<lparr>title = ''Purchase successful'',
      description = [Str ''The deck has been added to your library''],
      variant = Default_variant\<rparr>"

definition insufficient_toast :: "number \<Rightarrow> toast" where
  "insufficient_toast shortfall =
     \<lparr>title = ''Insufficient balance'',
      description = [Str ''You need $'', Fixed2 shortfall,
        Str '' more to purchase this deck. Please refill your balance.''],
      variant = Destructive\<rparr>"

definition failed_toast :: "string \<Rightarrow> toast" where
  "failed_toast d =
     \<lparr>title = ''Purchase failed'', description = [Str d], variant = Destructive\<rparr>"

definition recharge_failed_toast :: "string \<Rightarrow> toast" where
  "recharge_failed_toast d =
     \<lparr>title = ''Recharge failed'', description = [Str d], variant = Destructive\<rparr>"

text \<open>\<open>!deck.price || deck.price <= 0\<close>: a number is falsy when it is zero.\<close>

definition invalid_price :: "deck \<Rightarrow> bool" where
  "invalid_price d \<longleftrightarrow> price d = 0 \<or> price d \<le> 0"

subsection \<open>BuyDeckDialog.tsx\<close>

text \<open>
  \<open>loadUserBalance\<close>: with a signed-in user, the fetched balance replaces the state;
  a failed fetch is logged and the state stays.
\<close>

definition loadUserBalance ::
  "user option \<Rightarrow> number outcome \<Rightarrow> dialog_state \<Rightarrow> dialog_state \<times> ui_effect list" where
  "loadUserBalance usr fetched s =
     (case usr of
        None \<Rightarrow> (s, [])
      | Some u \<Rightarrow>
          (case fetched of
             Resolved b \<Rightarrow> (s\<lparr>userBalance := b\<rparr>, [])
           | Rejected e \<Rightarrow> (s, [ConsoleError ''Error loading user balance:'' e])))"

text \<open>
  \<open>handlePurchase\<close> is an async function with one \<open>await\<close>. Its first part runs up to
  the call of \<open>purchaseDeck\<close>; the second part runs when that promise settles, on the
  state as it is then (\<open>setUserBalance((prev) => prev - deck.price)\<close>).
\<close>

datatype phase = Returned | AwaitingPurchase

definition handlePurchase_begin ::
  "user option \<Rightarrow> deck \<Rightarrow> dialog_state \<Rightarrow> phase \<times> dialog_state \<times> ui_effect list" where
  "handlePurchase_begin usr d s =
     (case usr of
        None \<Rightarrow>
          (Returned, s, [ShowToast (sign_in_toast ''Please sign in to purchase this deck'')])
      | Some u \<Rightarrow>
          (let s1 = s\<lparr>isPurchasing := True\<rparr> in
           if invalid_price d then
             (Returned, s1\<lparr>isPurchasing := False\<rparr>,
              [ConsoleError ''Purchase error:'' (Error ''Invalid price''),
               ShowToast (failed_toast ''There was an error processing your purchase'')])
           else if userBalance s < price d then
             (Returned, s1\<lparr>isPurchasing := False\<rparr>,
              [ShowToast (insufficient_toast (price d - userBalance s))])
           else
             (AwaitingPurchase, s1, [CallPurchaseDeck (user_id u) (deck_id d) (price d)])))"

definition handlePurchase_resume ::
  "deck \<Rightarrow> unit outcome \<Rightarrow> dialog_state \<Rightarrow> dialog_state \<times> ui_effect list" where
  "handlePurchase_resume d result s =
     (case result of
        Resolved _ \<Rightarrow>
          (s\<lparr>userBalance := userBalance s - price d, isPurchasing := False\<rparr>,
           [ShowToast success_toast, OnClose])
      | Rejected e \<Rightarrow>
          (s\<lparr>isPurchasing := False\<rparr>,
           [ConsoleError ''Purchase error:'' e,
            ShowToast (failed_toast ''There was an error processing your purchase'')]))"

text \<open>The whole handler, when nothing else touches the state while it awaits.\<close>

definition handlePurchase ::
  "user option \<Rightarrow> deck \<Rightarrow> unit outcome \<Rightarrow> dialog_state \<Rightarrow> dialog_state \<times> ui_effect list" where
  "handlePurchase usr d result s =
     (case handlePurchase_begin usr d s of
        (Returned, s1, es) \<Rightarrow> (s1, es)
      | (AwaitingPurchase, s1, es) \<Rightarrow>
          (case handlePurchase_resume d result s1 of (s2, es2) \<Rightarrow> (s2, es @ es2)))"

subsection \<open>The second BuyDeckDialog (in PurchasedDeckDialog.tsx)\<close>

text \<open>\<open>if (url)\<close>: \<open>undefined\<close>, \<open>null\<close> and the empty string are falsy.\<close>

definition truthy_url :: "string option \<Rightarrow> bool" where
  "truthy_url url = (case url of None \<Rightarrow> False | Some u \<Rightarrow> u \<noteq> [])"

text \<open>\<open>error instanceof Error ? error.message : fallback\<close>\<close>

definition message_or :: "thrown \<Rightarrow> string \<Rightarrow> string" where
  "message_or e fallback = (case e of Error m \<Rightarrow> m | NonError \<Rightarrow> fallback)"

text \<open>
  \<open>handleRecharge\<close> asks for a checkout session of \<open>deck.price - userBalance\<close> and
  sends the browser to the returned URL; it never writes the component state.
\<close>

definition handleRecharge ::
  "user option \<Rightarrow> deck \<Rightarrow> string option outcome \<Rightarrow> dialog_state \<Rightarrow> ui_effect list" where
  "handleRecharge usr d session s =
     (case usr of
        None \<Rightarrow> [ShowToast (sign_in_toast ''Please sign in to recharge your balance'')]
      | Some u \<Rightarrow>
          (let amountToRecharge = price d - userBalance s in
           CallCreateCreditCheckoutSession (user_id u) amountToRecharge #
           (case session of
              Resolved url \<Rightarrow>
                (if truthy_url url then [SetLocationHref (case url of Some h \<Rightarrow> h | None \<Rightarrow> [])]
                 else
                   [ConsoleError ''Error during recharge:''
                      (Error ''Failed to create checkout session''),
                    ShowToast (recharge_failed_toast ''Failed to create checkout session'')])
            | Rejected e \<Rightarrow>
                [ConsoleError ''Error during recharge:'' e,
                 ShowToast (recharge_failed_toast (message_or e ''Failed to recharge balance''))])))"

definition handlePurchase2_begin ::
  "user option \<Rightarrow> deck \<Rightarrow> string option outcome \<Rightarrow> dialog_state
     \<Rightarrow> phase \<times> dialog_state \<times> ui_effect list" where
  "handlePurchase2_begin usr d session s =
     (case usr of
        None \<Rightarrow>
          (Returned, s, [ShowToast (sign_in_toast ''Please sign in to purchase this deck'')])
      | Some u \<Rightarrow>
          (let s1 = s\<lparr>isPurchasing := True\<rparr> in
           if invalid_price d then
             (Returned, s1\<lparr>isPurchasing := False\<rparr>,
              [ConsoleError ''Error during purchase:'' (Error ''Invalid deck price''),
               ShowToast (failed_toast ''Invalid deck price'')])
           else if userBalance s < price d then
             (Returned, s1\<lparr>isPurchasing := False\<rparr>, handleRecharge usr d session s1)
           else
             (AwaitingPurchase, s1,
              [CallProcessDeckPurchase (user_id u) (deck_id d) (price d)])))"

definition handlePurchase2_resume ::
  "deck \<Rightarrow> unit outcome \<Rightarrow> dialog_state \<Rightarrow> dialog_state \<times> ui_effect list" where
  "handlePurchase2_resume d result s =
     (case result of
        Resolved _ \<Rightarrow>
          (s\<lparr>userBalance := userBalance s - price d, isPurchasing := False\<rparr>,
           [ShowToast success_toast, OnClose])
      | Rejected e \<Rightarrow>
          (s\<lparr>isPurchasing := False\<rparr>,
           [ConsoleError ''Error during purchase:'' e,
            ShowToast (failed_toast (message_or e ''Failed to process purchase''))]))"

definition handlePurchase2 ::
  "user option \<Rightarrow> deck \<Rightarrow> unit outcome \<Rightarrow> string option outcome \<Rightarrow> dialog_state
     \<Rightarrow> dialog_state \<times> ui_effect list" where
  "handlePurchase2 usr d result session s =
     (case handlePurchase2_begin usr d session s of
        (Returned, s1, es) \<Rightarrow> (s1, es)
      | (AwaitingPurchase, s1, es) \<Rightarrow>
          (case handlePurchase2_resume d result s1 of (s2, es2) \<Rightarrow> (s2, es @ es2)))"

text \<open>
  The button of the second dialog:
  \<open>onClick={userBalance < deck.price ? handleRecharge : handlePurchase}\<close>.
\<close>

definition onClick2 ::
  "user option \<Rightarrow> deck \<Rightarrow> unit outcome \<Rightarrow> string option outcome \<Rightarrow> dialog_state
     \<Rightarrow> dialog_state \<times> ui_effect list" where
  "onClick2 usr d result session s =
     (if userBalance s < price d then (s, handleRecharge usr d session s)
      else handlePurchase2 usr d result session s)"

subsection \<open>Runs of a dialog\<close>

text \<open>
  One operation of a run is a handler executed from start to end: a purchase attempt in
  either dialog (with the result of the calls it awaits), or a completed balance load,
  which is how a finished top-up reaches the dialog.
\<close>

datatype dialog_op =
    Purchase deck "unit outcome"
  | Purchase2 deck "unit outcome" "string option outcome"
  | LoadBalance "number outcome"

fun apply_op :: "user option \<Rightarrow> dialog_op \<Rightarrow> dialog_state \<Rightarrow> dialog_state" where
  "apply_op usr (Purchase d result) s = fst (handlePurchase usr d result s)"
| "apply_op usr (Purchase2 d result session) s = fst (handlePurchase2 usr d result session s)"
| "apply_op usr (LoadBalance fetched) s = fst (loadUserBalance usr fetched s)"

text \<open>Every state a run goes through, the first and the last included.\<close>

fun observed :: "user option \<Rightarrow> dialog_op list \<Rightarrow> dialog_state \<Rightarrow> dialog_state list" where
  "observed usr [] s = [s]"
| "observed usr (x # xs) s = s # observed usr xs (apply_op usr x s)"

fun loads_nonneg :: "dialog_op \<Rightarrow> bool" where
  "loads_nonneg (LoadBalance (Resolved b)) \<longleftrightarrow> 0 \<le> b"
| "loads_nonneg _ \<longleftrightarrow> True"

section \<open>JavaScript numbers in the payment routes\<close>

text \<open>
  The routes multiply and round, so their numbers are IEEE 754 doubles: a finite double
  is the rational it denotes, and \<open>NaN\<close> and the two infinities are values of their own
  (a missing amount, \<open>undefined\<close>, multiplies as \<open>NaN\<close>). The sign of zero is not kept.
\<close>

datatype js_number = Finite rat | NaN | PosInfinity | NegInfinity

text \<open>\<open>ilog2 n\<close> is the largest \<open>e\<close> with \<open>2 ^ e \<le> n\<close>, \<open>clog2 n\<close> the least with \<open>n \<le> 2 ^ e\<close>.\<close>

function ilog2 :: "int \<Rightarrow> int" where
  "ilog2 n = (if n < 2 then 0 else 1 + ilog2 (n div 2))"
  by auto
termination
  by (relation "measure nat") auto

function clog2 :: "int \<Rightarrow> int" where
  "clog2 n = (if n \<le> 1 then 0 else 1 + clog2 ((n + 1) div 2))"
  by auto
termination
  by (relation "measure nat") auto

declare ilog2.simps [simp del] clog2.simps [simp del]

text \<open>The binary exponent of a positive rational \<open>a\<close>: \<open>2 ^ e \<le> a < 2 ^ (e + 1)\<close>.\<close>

definition exponent :: "rat \<Rightarrow> int" where
  "exponent a = (if 1 \<le> a then ilog2 \<lfloor>a\<rfloor> else - clog2 \<lceil>1 / a\<rceil>)"

text \<open>The nearest integer, a tie going to the even one.\<close>

definition nearest_even :: "rat \<Rightarrow> int" where
  "nearest_even t =
     (let f = \<lfloor>t\<rfloor>; r = t - of_int f
      in if r < 1 / 2 then f else if 1 / 2 < r then f + 1 else if even f then f else f + 1)"

text \<open>
  The double nearest to an exact value (round to nearest, ties to even): 53 significant
  bits, the exponent not below \<open>-1022\<close> (subnormal numbers), and infinity from
  \<open>2 ^ 1024\<close> on. A number literal and the result of every arithmetic operation are
  rounded this way.
\<close>

definition double :: "rat \<Rightarrow> js_number" where
  "double x =
     (if x = 0 then Finite 0
      else
        let a = \<bar>x\<bar>;
            e = max (exponent a) (- 1022);
            ulp = 2 powi (e - 52);
            n = nearest_even (a / ulp);
            y = of_int n * ulp
        in if 1023 < e \<or> (e = 1023 \<and> 2 ^ 53 \<le> n)
           then (if x < 0 then NegInfinity else PosInfinity)
           else Finite (if x < 0 then - y else y))"

text \<open>The operator \<open>*\<close>.\<close>

fun js_times :: "js_number \<Rightarrow> js_number \<Rightarrow> js_number" where
  "js_times (Finite a) (Finite b) = double (a * b)"
| "js_times NaN _ = NaN"
| "js_times _ NaN = NaN"
| "js_times (Finite a) PosInfinity =
     (if a = 0 then NaN else if 0 < a then PosInfinity else NegInfinity)"
| "js_times (Finite a) NegInfinity =
     (if a = 0 then NaN else if 0 < a then NegInfinity else PosInfinity)"
| "js_times PosInfinity (Finite b) =
     (if b = 0 then NaN else if 0 < b then PosInfinity else NegInfinity)"
| "js_times NegInfinity (Finite b) =
     (if b = 0 then NaN else if 0 < b then NegInfinity else PosInfinity)"
| "js_times PosInfinity PosInfinity = PosInfinity"
| "js_times PosInfinity NegInfinity = NegInfinity"
| "js_times NegInfinity PosInfinity = NegInfinity"
| "js_times NegInfinity NegInfinity = PosInfinity"

text \<open>The operator \<open>/\<close>.\<close>

fun js_divide :: "js_number \<Rightarrow> js_number \<Rightarrow> js_number" where
  "js_divide (Finite a) (Finite b) =
     (if b = 0 then (if a = 0 then NaN else if 0 < a then PosInfinity else NegInfinity)
      else double (a / b))"
| "js_divide NaN _ = NaN"
| "js_divide _ NaN = NaN"
| "js_divide (Finite a) PosInfinity = Finite 0"
| "js_divide (Finite a) NegInfinity = Finite 0"
| "js_divide PosInfinity (Finite b) = (if 0 \<le> b then PosInfinity else NegInfinity)"
| "js_divide NegInfinity (Finite b) = (if 0 \<le> b then NegInfinity else PosInfinity)"
| "js_divide PosInfinity PosInfinity = NaN"
| "js_divide PosInfinity NegInfinity = NaN"
| "js_divide NegInfinity PosInfinity = NaN"
| "js_divide NegInfinity NegInfinity = NaN"

text \<open>
  \<open>Math.round\<close>: the nearest integer, a tie going up; \<open>NaN\<close> and the infinities are
  returned as they are.
\<close>

fun Math_round :: "js_number \<Rightarrow> js_number" where
  "Math_round (Finite y) = Finite (of_int \<lfloor>y + 1 / 2\<rfloor>)"
| "Math_round NaN = NaN"
| "Math_round PosInfinity = PosInfinity"
| "Math_round NegInfinity = NegInfinity"

section \<open>The payment routes\<close>

text \<open>What a route handler sends back with \<open>res.status(..).json(..)\<close> or \<open>.send(..)\<close>.\<close>

datatype response_body =
    Json_received
  | Json_url "string option"
  | Json_success
  | Json_error string
  | Json_error_message thrown
  | Text string

record response =
  status :: nat
  body :: response_body

text \<open>The arguments of the calls to the payment processor.\<close>

record checkout_params =
  currency :: string
  product_name :: string
  unit_amount :: js_number
  quantity :: nat
  session_metadata :: "(string \<times> string) list"

record transfer_params =
  transfer_amount :: js_number
  transfer_currency :: string
  destination :: string
  transfer_description :: string

text \<open>The fields of \<open>event.data.object\<close> that the webhook handlers read.\<close>

record data_object =
  object_id :: string
  metadata :: "(string \<times> string) list option"
  amount_total :: js_number
  charges_enabled :: bool
  payouts_enabled :: bool

record event =
  event_id :: string
  event_type :: string
  event_object :: data_object

text \<open>A webhook request as it arrives: the bytes of its body and its signature header.\<close>

record request =
  req_body :: string
  stripe_signature :: "string option"

datatype log_line =
    CheckoutComplete "string option" "string option" js_number
  | AccountUpdated string bool bool
  | UnhandledEventType string
  | ProcessedPurchase "string option" "string option"

text \<open>
  What a route does besides answering: console output, the call of \<open>purchaseDeck\<close>
  (its arguments may be \<open>undefined\<close>), and the calls to the payment processor.
\<close>

datatype server_effect =
    Log log_line
  | LogError string thrown
  | PurchaseDeck "string option" "string option"
  | CheckoutSessionsCreate checkout_params
  | TransfersCreate transfer_params

subsection \<open>Body parsers and signature verification\<close>

text \<open>
  \<open>req.body\<close> when the handler runs: the raw bytes in a \<open>Buffer\<close>, as \<open>express.raw\<close>
  leaves them, or the object that \<open>express.json()\<close> has parsed out of them. Both parsers
  accept the content type \<open>application/json\<close> that the processor sends, and each leaves
  the request alone when an earlier parser has already read the body. (A body that is not
  well-formed JSON is refused by \<open>express.json()\<close> itself with status 400; the requests
  below are the well-formed ones.)
\<close>

datatype payload = Buffer string | Object string

definition express_json :: "string \<Rightarrow> payload option \<Rightarrow> payload option" where
  "express_json bytes parsed =
     (case parsed of None \<Rightarrow> Some (Object bytes) | Some p \<Rightarrow> Some p)"

definition express_raw :: "string \<Rightarrow> payload option \<Rightarrow> payload option" where
  "express_raw bytes parsed =
     (case parsed of None \<Rightarrow> Some (Buffer bytes) | Some p \<Rightarrow> Some p)"

text \<open>
  \<open>stripe.webhooks.constructEvent(req.body, sig, secret)\<close> belongs to the processor's
  library. The signature is computed over the bytes that were sent: on a \<open>Buffer\<close> the
  check is the parameter \<open>verify\<close>, which returns the event or the message of the error
  it throws; on anything else the call throws.
\<close>

type_synonym verifier = "string \<Rightarrow> string option \<Rightarrow> string \<Rightarrow> string + event"

definition not_raw_payload :: string where
  "not_raw_payload = ''Webhook payload must be provided as a string or a Buffer''"

definition constructEvent ::
  "verifier \<Rightarrow> payload option \<Rightarrow> string option \<Rightarrow> string \<Rightarrow> string + event" where
  "constructEvent verify b sig secret =
     (case b of
        Some (Buffer bytes) \<Rightarrow> verify bytes sig secret
      | _ \<Rightarrow> Inl not_raw_payload)"

text \<open>Destructuring \<open>session.metadata\<close> when it is \<open>null\<close> throws a TypeError.\<close>

definition metadata_TypeError :: thrown where
  "metadata_TypeError = Error ''TypeError: Cannot destructure property of session.metadata''"

subsection \<open>server/routes/stripe.ts\<close>

definition create_checkout_session_ts ::
  "string \<Rightarrow> string \<Rightarrow> string \<Rightarrow> js_number \<Rightarrow> string option outcome
     \<Rightarrow> response \<times> server_effect list" where
  "create_checkout_session_ts deckId userId deckTitle price_arg created =
     (let params =
        \<lparr>currency = ''usd'', product_name = deckTitle,
         unit_amount = Math_round (js_times price_arg (Finite 100)), quantity = 1,
         session_metadata = [(''deckId'', deckId), (''userId'', userId)]\<rparr>
      in case created of
           Resolved url \<Rightarrow>
             (\<lparr>status = 200, body = Json_url url\<rparr>, [CheckoutSessionsCreate params])
         | Rejected e \<Rightarrow>
             (\<lparr>status = 500, body = Json_error ''Failed to create checkout session''\<rparr>,
              [CheckoutSessionsCreate params,
               LogError ''Error creating checkout session:'' e]))"

text \<open>The route's only body parser is its own \<open>express.raw\<close>.\<close>

definition webhook_ts ::
  "verifier \<Rightarrow> string \<Rightarrow> request \<Rightarrow> unit outcome \<Rightarrow> response \<times> server_effect list" where
  "webhook_ts verify secret req purchased =
     (case constructEvent verify (express_raw (req_body req) None)
             (stripe_signature req) secret of
        Inl msg \<Rightarrow>
          (\<lparr>status = 400, body = Text (''Webhook Error: '' @ msg)\<rparr>,
           [LogError ''Webhook signature verification failed:'' (Error msg)])
      | Inr ev \<Rightarrow>
          (if event_type ev = ''checkout.session.completed'' then
             (case metadata (event_object ev) of
                None \<Rightarrow>
                  (\<lparr>status = 500, body = Text ''Failed to process purchase''\<rparr>,
                   [LogError ''Error processing purchase:'' metadata_TypeError])
              | Some m \<Rightarrow>
                  (let deckId = map_of m ''deckId''; userId = map_of m ''userId'' in
                   case purchased of
                     Resolved _ \<Rightarrow>
                       (\<lparr>status = 200, body = Json_received\<rparr>,
                        [PurchaseDeck userId deckId, Log (ProcessedPurchase deckId userId)])
                   | Rejected e \<Rightarrow>
                       (\<lparr>status = 500, body = Text ''Failed to process purchase''\<rparr>,
                        [PurchaseDeck userId deckId,
                         LogError ''Error processing purchase:'' e])))
           else (\<lparr>status = 200, body = Json_received\<rparr>, [])))"

subsection \<open>api.js\<close>

definition create_checkout_session_js ::
  "string \<Rightarrow> js_number \<Rightarrow> string option outcome \<Rightarrow> response \<times> server_effect list" where
  "create_checkout_session_js userId amount created =
     (let params =
        \<lparr>currency = ''eur'', product_name = ''Add Credits to your balance'',
         unit_amount = Math_round (js_times amount (Finite 100)), quantity = 1,
         session_metadata = [(''userId'', userId), (''type'', ''recharge'')]\<rparr>
      in case created of
           Resolved url \<Rightarrow>
             (\<lparr>status = 200, body = Json_url url\<rparr>, [CheckoutSessionsCreate params])
         | Rejected e \<Rightarrow>
             (\<lparr>status = 500, body = Json_error_message e\<rparr>,
              [CheckoutSessionsCreate params,
               LogError ''Error creating checkout session:'' e]))"



text \<open>The \<open>switch (event.type)\<close> of the webhook handler, inside its \<open>try\<close>.\<close>

definition handle_event_js :: "event \<Rightarrow> response \<times> server_effect list" where
  "handle_event_js ev =
     (if event_type ev = ''checkout.session.completed'' then
        (case metadata (event_object ev) of
           None \<Rightarrow>
             (\<lparr>status = 500, body = Json_error_message metadata_TypeError\<rparr>,
              [LogError ''Error processing webhook:'' metadata_TypeError])
         | Some m \<Rightarrow>
             (\<lparr>status = 200, body = Json_received\<rparr>,
              [Log (CheckoutComplete (map_of m ''userId'') (map_of m ''type'')
                      (js_divide (amount_total (event_object ev)) (Finite 100)))]))
      else if event_type ev = ''account.updated'' then
        (\<lparr>status = 200, body = Json_received\<rparr>,
         [Log (AccountUpdated (object_id (event_object ev))
                 (charges_enabled (event_object ev))
                 (payouts_enabled (event_object ev)))])
      else
        (\<lparr>status = 200, body = Json_received\<rparr>,
         [Log (UnhandledEventType (event_type ev))]))"

text \<open>
  The router of api.js installs \<open>express.json()\<close> for all its routes (line 6), so it
  runs before the \<open>express.raw\<close> of the webhook route (line 133).
\<close>

definition webhook_js ::
  "verifier \<Rightarrow> string \<Rightarrow> request \<Rightarrow> response \<times> server_effect list" where
  "webhook_js verify secret req =
     (case constructEvent verify
             (express_raw (req_body req) (express_json (req_body req) None))
             (stripe_signature req) secret of
        Inl msg \<Rightarrow>
          (\<lparr>status = 400, body = Text (''Webhook Error: '' @ msg)\<rparr>,
           [LogError ''Webhook signature verification failed:'' (Error msg)])
      | Inr ev \<Rightarrow> handle_event_js ev)"

subsection \<open>Deliveries\<close>

text \<open>
  The requests a handler receives one after the other: the answers, and everything the
  handler did, in order.
\<close>

fun deliveries ::
  "('d \<Rightarrow> response \<times> server_effect list) \<Rightarrow> 'd list \<Rightarrow> response list \<times> server_effect list" where
  "deliveries h [] = ([], [])"
| "deliveries h (d # ds) =
     (case h d of (r, es) \<Rightarrow>
        (case deliveries h ds of (rs, es') \<Rightarrow> (r # rs, es @ es')))"

text \<open>The effects that ask another component to change stored data.\<close>

fun is_mutation :: "server_effect \<Rightarrow> bool" where
  "is_mutation (PurchaseDeck _ _) = True"
| "is_mutation (CheckoutSessionsCreate _) = True"
| "is_mutation (TransfersCreate _) = True"
| "is_mutation (Log _) = False"
| "is_mutation (LogError _ _) = False"

subsection \<open>Amounts sent to the payment processor\<close>

fun checkout_amount :: "server_effect \<Rightarrow> js_number option" where
  "checkout_amount (CheckoutSessionsCreate p) = Some (unit_amount p)"
| "checkout_amount _ = None"


subsection \<open>Sample data\<close>

text \<open>
  A signature check for the examples: over any bytes, the header \<open>good\<close> verifies and
  yields the event of a completed checkout of 200 for user \<open>u1\<close> and deck \<open>d1\<close>; anything
  else fails.
\<close>

definition sample_event :: event where
  "sample_event =
     \<lparr>event_id = ''evt_1'', event_type = ''checkout.session.completed'',
      event_object =
        \<lparr>object_id = ''cs_1'',
         metadata = Some [(''deckId'', ''d1''), (''userId'', ''u1''), (''type'', ''recharge'')],
         amount_total = Finite 200, charges_enabled = False, payouts_enabled = False\<rparr>\<rparr>"

definition sample_verify :: verifier where
  "sample_verify bytes sig secret =
     (if sig = Some ''good'' then Inr sample_event
      else Inl ''No signatures found matching the expected signature for payload'')"

definition sample_request :: "string \<Rightarrow> request" where
  "sample_request sig = \<lparr>req_body = ''{}'', stripe_signature = Some sig\<rparr>"

definition sample_user :: user where
  "sample_user = \<lparr>user_id = ''u1''\<rparr>"

definition sample_deck :: "number \<Rightarrow> deck" where
  "sample_deck p = \<lparr>deck_id = ''d1'', deck_title = ''Deck'', price = p\<rparr>"

definition sample_state :: "number \<Rightarrow> dialog_state" where
  "sample_state b = \<lparr>userBalance = b, isPurchasing = False\<rparr>"

section \<open>Auxiliary facts\<close>

lemmas dialog_defs =
  handlePurchase_def handlePurchase_begin_def handlePurchase_resume_def
  handlePurchase2_def handlePurchase2_begin_def handlePurchase2_resume_def
  handleRecharge_def loadUserBalance_def invalid_price_def onClick2_def

lemmas sample_defs =
  sample_user_def sample_deck_def sample_state_def sample_event_def
  sample_verify_def sample_request_def

lemmas webhook_defs =
  webhook_ts_def webhook_js_def constructEvent_def express_raw_def express_json_def

lemma apply_op_nonneg:
  assumes "0 \<le> userBalance s" and "loads_nonneg x"
  shows "0 \<le> userBalance (apply_op usr x s)"
proof (cases x)
  case (Purchase d r)
  then show ?thesis using assms(1)
    by (cases r) (auto simp: dialog_defs Let_def split: option.split)
next
  case (Purchase2 d r session)
  then show ?thesis using assms(1)
    by (cases r) (auto simp: dialog_defs Let_def split: option.split)
next
  case (LoadBalance f)
  then show ?thesis using assms
    by (cases f) (auto simp: dialog_defs split: option.split)
qed

lemma deliveries_replicate:
  assumes "h d = (r, es)"
  shows "deliveries h (replicate n d) = (replicate n r, concat (replicate n es))"
  using assms by (induction n) simp_all

lemma filter_concat_replicate:
  "filter P (concat (replicate n es)) = concat (replicate n (filter P es))"
  by (induction n) simp_all

lemma concat_replicate_single: "concat (replicate n [x]) = replicate n x"
  by (induction n) simp_all

subsection \<open>Rounding to a double\<close>

lemma ilog2_bound: "1 \<le> n \<Longrightarrow> 0 \<le> ilog2 n \<and> 2 ^ nat (ilog2 n) \<le> n"
proof (induction n rule: ilog2.induct)
  case (1 n)
  show ?case
  proof (cases "n < 2")
    case True
    with "1.prems" show ?thesis by (simp add: ilog2.simps)
  next
    case False
    then have h: "1 \<le> n div 2" by simp
    from "1.IH" [OF False h]
    have ih: "0 \<le> ilog2 (n div 2)" "2 ^ nat (ilog2 (n div 2)) \<le> n div 2"
      by simp_all
    have eq: "ilog2 n = 1 + ilog2 (n div 2)" using False by (simp add: ilog2.simps)
    have "nat (1 + ilog2 (n div 2)) = Suc (nat (ilog2 (n div 2)))" using ih(1) by simp
    then have "(2::int) ^ nat (ilog2 n) = 2 * 2 ^ nat (ilog2 (n div 2))" using eq by simp
    also have "\<dots> \<le> 2 * (n div 2)" using ih(2) by simp
    also have "\<dots> \<le> n" by simp
    finally show ?thesis using eq ih(1) by simp
  qed
qed

lemma clog2_bound: "0 \<le> clog2 n \<and> n \<le> 2 ^ nat (clog2 n)"
proof (induction n rule: clog2.induct)
  case (1 n)
  show ?case
  proof (cases "n \<le> 1")
    case True
    then show ?thesis by (simp add: clog2.simps)
  next
    case False
    from "1.IH" [OF False]
    have ih: "0 \<le> clog2 ((n + 1) div 2)"
      "(n + 1) div 2 \<le> 2 ^ nat (clog2 ((n + 1) div 2))" by simp_all
    have eq: "clog2 n = 1 + clog2 ((n + 1) div 2)" using False by (simp add: clog2.simps)
    have "nat (1 + clog2 ((n + 1) div 2)) = Suc (nat (clog2 ((n + 1) div 2)))"
      using ih(1) by simp
    then have p: "(2::int) ^ nat (clog2 n) = 2 * 2 ^ nat (clog2 ((n + 1) div 2))"
      using eq by simp
    have "n \<le> 2 * ((n + 1) div 2)" by linarith
    also have "\<dots> \<le> 2 * 2 ^ nat (clog2 ((n + 1) div 2))" using ih(2) by simp
    finally show ?thesis using eq ih(1) p by simp
  qed
qed

lemma exponent_lower:
  assumes "0 < a"
  shows "2 powi (exponent a) \<le> a"
proof (cases "1 \<le> a")
  case True
  then have f: "1 \<le> \<lfloor>a\<rfloor>" by simp
  from ilog2_bound [OF f]
  have b: "0 \<le> ilog2 \<lfloor>a\<rfloor>" "2 ^ nat (ilog2 \<lfloor>a\<rfloor>) \<le> \<lfloor>a\<rfloor>" by simp_all
  have "(2::rat) powi (ilog2 \<lfloor>a\<rfloor>) = 2 ^ nat (ilog2 \<lfloor>a\<rfloor>)"
    using b(1) by (simp add: power_int_def)
  also have "\<dots> = of_int (2 ^ nat (ilog2 \<lfloor>a\<rfloor>))" by simp
  also have "\<dots> \<le> of_int \<lfloor>a\<rfloor>" using b(2) by (simp only: of_int_le_iff)
  also have "\<dots> \<le> a" by simp
  finally show ?thesis using True by (simp add: exponent_def)
next
  case False
  let ?k = "clog2 \<lceil>1 / a\<rceil>"
  from clog2_bound [of "\<lceil>1 / a\<rceil>"]
  have b: "0 \<le> ?k" "\<lceil>1 / a\<rceil> \<le> 2 ^ nat ?k" by simp_all
  have "1 / a \<le> of_int \<lceil>1 / a\<rceil>" by simp
  also have "\<dots> \<le> of_int (2 ^ nat ?k)" using b(2) by (simp only: of_int_le_iff)
  finally have "1 / a \<le> 2 ^ nat ?k" by simp
  then have "1 \<le> a * 2 ^ nat ?k" using assms by (simp add: field_simps)
  then have "1 / 2 ^ nat ?k \<le> a" by (simp add: field_simps)
  moreover have "(2::rat) powi (- ?k) = 1 / 2 ^ nat ?k"
    using b(1) by (simp add: power_int_def field_simps)
  ultimately show ?thesis using False by (simp add: exponent_def)
qed

lemma nearest_even_near: "\<bar>of_int (nearest_even t) - t\<bar> \<le> 1 / 2"
proof -
  have f: "of_int \<lfloor>t\<rfloor> \<le> t" "t < of_int \<lfloor>t\<rfloor> + 1" by linarith+
  show ?thesis
    unfolding nearest_even_def Let_def using f by (simp add: abs_le_iff)
qed

text \<open>Away from overflow and from the subnormal range, rounding moves a value by at most
  the fraction \<open>2 ^ -53\<close> of itself.\<close>

lemma double_error:
  assumes lo: "1 / 2 ^ 100 \<le> \<bar>x\<bar>" and hi: "\<bar>x\<bar> \<le> 2 ^ 100"
  shows "\<exists>y. double x = Finite y \<and> \<bar>y - x\<bar> \<le> \<bar>x\<bar> / 2 ^ 53"
proof -
  define a where "a = \<bar>x\<bar>"
  define e where "e = max (exponent a) (- 1022)"
  define ulp where "ulp = (2::rat) powi (e - 52)"
  define n where "n = nearest_even (a / ulp)"
  define y where "y = of_int n * ulp"
  have apos: "0 < a" using lo by (simp add: a_def)
  have x0: "x \<noteq> 0" using apos by (auto simp: a_def)
  have ulp_pos: "0 < ulp" by (simp add: ulp_def)
  have le: "2 powi e \<le> a"
  proof (cases "- 1022 \<le> exponent a")
    case True
    then show ?thesis using exponent_lower [OF apos] by (simp add: e_def max_def)
  next
    case False
    then have "e = - 1022" by (simp add: e_def max_def)
    moreover have "(2::rat) powi (- 1022) \<le> 2 powi (- 100)"
      by (rule power_int_increasing) simp_all
    moreover have "(2::rat) powi (- 100) = 1 / 2 ^ 100"
      by (simp add: power_int_def field_simps)
    ultimately show ?thesis using lo by (simp add: a_def)
  qed
  have e_le: "e \<le> 100"
  proof (rule ccontr)
    assume "\<not> e \<le> 100"
    then have "101 \<le> e" by simp
    then have "(2::rat) powi 101 \<le> 2 powi e" by (intro power_int_increasing) simp_all
    moreover have "(2::rat) powi 101 = 2 ^ 101" by (simp add: power_int_def)
    ultimately have "(2::rat) ^ 101 \<le> a" using le by simp
    then show False using hi by (simp add: a_def)
  qed
  have ulp_eq: "ulp = 2 powi e / 2 ^ 52"
    by (simp add: ulp_def power_int_diff)
  have "\<bar>of_int n - a / ulp\<bar> \<le> 1 / 2" unfolding n_def by (rule nearest_even_near)
  then have "\<bar>of_int n - a / ulp\<bar> * ulp \<le> 1 / 2 * ulp"
    using ulp_pos by (intro mult_right_mono) simp_all
  moreover have "(of_int n - a / ulp) * ulp = y - a"
    using ulp_pos by (simp add: y_def field_simps)
  then have "\<bar>of_int n - a / ulp\<bar> * ulp = \<bar>y - a\<bar>"
    using ulp_pos by (metis abs_mult abs_of_pos)
  ultimately have "\<bar>y - a\<bar> \<le> ulp / 2" by simp
  also have "\<dots> = 2 powi e / 2 ^ 53" by (simp add: ulp_eq)
  also have "\<dots> \<le> a / 2 ^ 53" using le by (simp add: divide_right_mono)
  finally have err: "\<bar>y - a\<bar> \<le> a / 2 ^ 53" .
  have no_over: "\<not> (1023 < e \<or> (e = 1023 \<and> 2 ^ 53 \<le> n))" using e_le by simp
  have d: "double x = Finite (if x < 0 then - y else y)"
    using x0 no_over
    by (simp add: double_def Let_def a_def [symmetric] e_def [symmetric] ulp_def [symmetric]
        n_def [symmetric] y_def [symmetric])
  have "\<bar>(if x < 0 then - y else y) - x\<bar> = \<bar>y - a\<bar>"
    by (auto simp: a_def)
  then show ?thesis using d err by (simp add: a_def)
qed

lemma floor_half: "\<lfloor>(1::rat) / 2\<rfloor> = 0"
  by (rule floor_unique) simp_all

lemma double_zero: "double 0 = Finite 0"
  by (simp add: double_def)


text \<open>A whole number of hundredths, sent as the nearest double and multiplied by 100,
  rounds back to itself.\<close>

lemma cents_roundtrip:
  assumes "0 \<le> k" and "k \<le> 10 ^ 12"
  shows "Math_round (js_times (double (of_int k / 100)) (Finite 100)) = Finite (of_int k)"
proof (cases "k = 0")
  case True
  then show ?thesis by (simp add: double_zero floor_half)
next
  case False
  define K :: rat where "K = of_int k"
  have "1 \<le> k" using assms False by simp
  then have "rat_of_int 1 \<le> of_int k" by (simp only: of_int_le_iff)
  moreover have "rat_of_int k \<le> of_int (10 ^ 12)" using assms(2) by (simp only: of_int_le_iff)
  ultimately have K: "1 \<le> K" "K \<le> 1000000000000" by (simp_all add: K_def)
  have "1 / 2 ^ 100 \<le> \<bar>K / 100\<bar>" "\<bar>K / 100\<bar> \<le> 2 ^ 100" using K by simp_all
  from double_error [OF this] obtain p where
    p: "double (K / 100) = Finite p" "\<bar>p - K / 100\<bar> \<le> \<bar>K / 100\<bar> / 2 ^ 53" by blast
  have pb: "\<bar>p - K / 100\<bar> \<le> K / 100 / 9007199254740992" using p(2) K by simp
  have ppos: "0 < p" using pb K by linarith
  have "1 / 2 ^ 100 \<le> p * 100" "p * 100 \<le> 2 ^ 100" using pb K by (simp; linarith)+
  then have "1 / 2 ^ 100 \<le> \<bar>p * 100\<bar>" "\<bar>p * 100\<bar> \<le> 2 ^ 100"
    using ppos by (simp_all add: abs_of_pos)
  from double_error [OF this] obtain t where
    t: "double (p * 100) = Finite t" "\<bar>t - p * 100\<bar> \<le> \<bar>p * 100\<bar> / 2 ^ 53" by blast
  have tb: "\<bar>t - p * 100\<bar> \<le> p * 100 / 9007199254740992" using t(2) ppos by simp
  have "\<lfloor>t + 1 / 2\<rfloor> = k"
  proof (rule floor_unique)
    show "of_int k \<le> t + 1 / 2" using pb tb K unfolding K_def [symmetric] by linarith
    show "t + 1 / 2 < of_int k + 1" using pb tb K unfolding K_def [symmetric] by linarith
  qed
  then show ?thesis using p(1) t(1) by (simp add: K_def)
qed


section \<open>Properties\<close>

subsection \<open>C1: the displayed balance stays non-negative\<close>

text \<open>
  C1, as the code has it. In \<open>handlePurchase\<close> the test \<open>userBalance < deck.price\<close> is a
  check on the displayed balance made before the purchase call; the decrement comes after
  the call has resolved. For every run in which each handler finishes before the next
  operation starts, starting from a non-negative balance and loading only non-negative
  balances, every state the run goes through has a non-negative balance.
\<close>

theorem C1_sequential_balance_nonneg:
  assumes "0 \<le> userBalance s" and "\<forall>x \<in> set ops. loads_nonneg x"
  shows "\<forall>s' \<in> set (observed usr ops s). 0 \<le> userBalance s'"
  using assms
proof (induction ops arbitrary: s)
  case Nil
  then show ?case by simp
next
  case (Cons x xs)
  have "0 \<le> userBalance (apply_op usr x s)"
    using Cons.prems by (simp add: apply_op_nonneg)
  then have "\<forall>s' \<in> set (observed usr xs (apply_op usr x s)). 0 \<le> userBalance s'"
    using Cons.IH Cons.prems by simp
  then show ?case using Cons.prems by simp
qed

text \<open>
  A run of four operations from balance 0: a load of 10, a purchase of 7 that settles,
  a second purchase of 7 that is refused (3 left), a load of 5.
\<close>

theorem C1_sequential_balance_nonneg_witness:
  "list_all loads_nonneg
     [LoadBalance (Resolved 10), Purchase (sample_deck 7) (Resolved ()),
      Purchase (sample_deck 7) (Resolved ()), LoadBalance (Resolved 5)]
   \<and> list_all (\<lambda>s'. 0 \<le> userBalance s')
       (observed (Some sample_user)
          [LoadBalance (Resolved 10), Purchase (sample_deck 7) (Resolved ()),
           Purchase (sample_deck 7) (Resolved ()), LoadBalance (Resolved 5)]
          (sample_state 0))"
  using C1_sequential_balance_nonneg
    [of "sample_state 0"
        "[LoadBalance (Resolved 10), Purchase (sample_deck 7) (Resolved ()),
          Purchase (sample_deck 7) (Resolved ()), LoadBalance (Resolved 5)]"
        "Some sample_user"]
  by (simp add: sample_state_def list_all_iff)

text \<open>
  The check and the decrement are two separate steps with an \<open>await\<close> between them.
  Balance 10, price 10: the check passes and the purchase call is awaited; a balance load
  completes meanwhile with 0; the call resolves and the decrement is applied to 0.
\<close>

theorem C1_check_then_apply_counterexample:
  "fst (handlePurchase_begin (Some sample_user) (sample_deck 10) (sample_state 10))
     = AwaitingPurchase
   \<and> userBalance
       (fst (handlePurchase_resume (sample_deck 10) (Resolved ())
          (fst (loadUserBalance (Some sample_user) (Resolved 0)
             (fst (snd (handlePurchase_begin (Some sample_user) (sample_deck 10)
                          (sample_state 10)))))))) = - 10"
  by (simp add: dialog_defs sample_defs)

subsection \<open>C2: what a verified completed-checkout event triggers\<close>

text \<open>
  C2, as the code has it. For every request to the webhook of stripe.ts whose raw body
  verifies as an event of type \<open>checkout.session.completed\<close> that carries metadata, the
  handler calls \<open>purchaseDeck\<close> once, with the user and the deck named in the metadata,
  and does nothing else to stored data: it answers \<open>{received: true}\<close> when the call
  resolves and 500 when it rejects. No balance is credited by the confirmed amount, and
  there is no top-up or purchase intent to mark or settle.
\<close>

theorem C2_completed_checkout_handling:
  assumes "verify (req_body req) (stripe_signature req) secret = Inr ev"
    and "event_type ev = ''checkout.session.completed''"
    and "metadata (event_object ev) = Some m"
  shows "webhook_ts verify secret req (Resolved ()) =
           (\<lparr>status = 200, body = Json_received\<rparr>,
            [PurchaseDeck (map_of m ''userId'') (map_of m ''deckId''),
             Log (ProcessedPurchase (map_of m ''deckId'') (map_of m ''userId''))])
       \<and> webhook_ts verify secret req (Rejected e) =
           (\<lparr>status = 500, body = Text ''Failed to process purchase''\<rparr>,
            [PurchaseDeck (map_of m ''userId'') (map_of m ''deckId''),
             LogError ''Error processing purchase:'' e])"
  using assms by (simp add: webhook_defs Let_def)

theorem C2_completed_checkout_handling_witness:
  "sample_verify (req_body (sample_request ''good''))
      (stripe_signature (sample_request ''good'')) ''whsec'' = Inr sample_event
   \<and> event_type sample_event = ''checkout.session.completed''
   \<and> metadata (event_object sample_event) =
       Some [(''deckId'', ''d1''), (''userId'', ''u1''), (''type'', ''recharge'')]
   \<and> webhook_ts sample_verify ''whsec'' (sample_request ''good'') (Rejected NonError) =
       (\<lparr>status = 500, body = Text ''Failed to process purchase''\<rparr>,
        [PurchaseDeck (Some ''u1'') (Some ''d1''),
         LogError ''Error processing purchase:'' NonError])"
  using C2_completed_checkout_handling
    [of sample_verify "sample_request ''good''" "''whsec''" sample_event
        "[(''deckId'', ''d1''), (''userId'', ''u1''), (''type'', ''recharge'')]" NonError]
  by (simp add: sample_defs)

text \<open>
  A verified completed checkout of 200 for user \<open>u1\<close>, delivered to stripe.ts: the handler
  asks for one purchase of deck \<open>d1\<close> and writes a log line; nothing it does carries the
  amount to a balance.
\<close>

theorem C2_no_credit_counterexample:
  "webhook_ts sample_verify ''whsec'' (sample_request ''good'') (Resolved ()) =
     (\<lparr>status = 200, body = Json_received\<rparr>,
      [PurchaseDeck (Some ''u1'') (Some ''d1''),
       Log (ProcessedPurchase (Some ''d1'') (Some ''u1''))])"
  by (simp add: webhook_defs sample_defs Let_def)

subsection \<open>C3: repeated deliveries of one event\<close>

text \<open>
  C3, as the code has it. The webhook of stripe.ts neither records nor looks up the
  event id. For every request whose raw body verifies as an event of type
  \<open>checkout.session.completed\<close> that carries metadata, and every \<open>n\<close>: \<open>n\<close> deliveries
  whose purchase call resolves get \<open>n\<close> answers \<open>{received: true}\<close> and make \<open>n\<close> calls of
  \<open>purchaseDeck\<close>, one for each delivery.
\<close>

theorem C3_each_delivery_is_applied:
  assumes "verify (req_body req) (stripe_signature req) secret = Inr ev"
    and "event_type ev = ''checkout.session.completed''"
    and "metadata (event_object ev) = Some m"
  shows "fst (deliveries (case_prod (webhook_ts verify secret)) (replicate n (req, Resolved ())))
           = replicate n \<lparr>status = 200, body = Json_received\<rparr>
       \<and> filter is_mutation
           (snd (deliveries (case_prod (webhook_ts verify secret))
                   (replicate n (req, Resolved ()))))
           = replicate n (PurchaseDeck (map_of m ''userId'') (map_of m ''deckId''))"
proof -
  have ts: "case_prod (webhook_ts verify secret) (req, Resolved ()) =
      (\<lparr>status = 200, body = Json_received\<rparr>,
       [PurchaseDeck (map_of m ''userId'') (map_of m ''deckId''),
        Log (ProcessedPurchase (map_of m ''deckId'') (map_of m ''userId''))])"
    using assms by (simp add: webhook_defs Let_def)
  show ?thesis
    by (simp add: deliveries_replicate [of "case_prod (webhook_ts verify secret)", OF ts]
        filter_concat_replicate concat_replicate_single)
qed

theorem C3_each_delivery_is_applied_witness:
  "sample_verify (req_body (sample_request ''good''))
      (stripe_signature (sample_request ''good'')) ''whsec'' = Inr sample_event
   \<and> event_type sample_event = ''checkout.session.completed''
   \<and> metadata (event_object sample_event) =
       Some [(''deckId'', ''d1''), (''userId'', ''u1''), (''type'', ''recharge'')]
   \<and> filter is_mutation
       (snd (deliveries (case_prod (webhook_ts sample_verify ''whsec''))
               (replicate 3 (sample_request ''good'', Resolved ()))))
       = replicate 3 (PurchaseDeck (Some ''u1'') (Some ''d1''))"
  using C3_each_delivery_is_applied
    [of sample_verify "sample_request ''good''" "''whsec''" sample_event
        "[(''deckId'', ''d1''), (''userId'', ''u1''), (''type'', ''recharge'')]" 3]
  by (simp add: sample_defs)

text \<open>
  The same verified event delivered once and delivered twice to stripe.ts: the second
  delivery calls \<open>purchaseDeck\<close> again.
\<close>

theorem C3_redelivery_counterexample:
  "filter is_mutation
     (snd (deliveries (case_prod (webhook_ts sample_verify ''whsec''))
             [(sample_request ''good'', Resolved ())]))
     = [PurchaseDeck (Some ''u1'') (Some ''d1'')]
   \<and> filter is_mutation
       (snd (deliveries (case_prod (webhook_ts sample_verify ''whsec''))
               [(sample_request ''good'', Resolved ()), (sample_request ''good'', Resolved ())]))
       = [PurchaseDeck (Some ''u1'') (Some ''d1''), PurchaseDeck (Some ''u1'') (Some ''d1'')]"
  by (simp add: webhook_defs sample_defs Let_def)

subsection \<open>C4: a purchase with too small a balance\<close>




subsection \<open>C5: buying the same deck again\<close>




subsection \<open>C6: a webhook request whose signature does not verify\<close>

text \<open>
  C6. The webhook of stripe.ts meets the claim: the signature is checked against the raw
  body; when the check fails the handler answers 400 with the error message, its only
  effect is the line written to the error log, and the answer is 400 exactly when the
  check fails, so only requests that verify reach the code that handles events. The
  webhook of api.js does not meet it: \<open>express.json()\<close> has parsed the body before the
  handler runs, \<open>constructEvent\<close> is given the parsed object and never the raw bytes, and
  every request, whatever its signature, is answered 400.
\<close>

theorem C6_raw_body_verification:
  "(\<forall>msg. verify (req_body req) (stripe_signature req) secret = Inl msg \<longrightarrow>
        webhook_ts verify secret req purchased =
          (\<lparr>status = 400, body = Text (''Webhook Error: '' @ msg)\<rparr>,
           [LogError ''Webhook signature verification failed:'' (Error msg)]))
   \<and> (status (fst (webhook_ts verify secret req purchased)) = 400
        \<longleftrightarrow> isl (verify (req_body req) (stripe_signature req) secret))
   \<and> express_raw (req_body req) None = Some (Buffer (req_body req))
   \<and> express_raw (req_body req) (express_json (req_body req) None)
        = Some (Object (req_body req))
   \<and> webhook_js verify secret req =
        (\<lparr>status = 400, body = Text (''Webhook Error: '' @ not_raw_payload)\<rparr>,
         [LogError ''Webhook signature verification failed:'' (Error not_raw_payload)])"
  by (auto simp: webhook_defs Let_def split: sum.split option.split outcome.split)

text \<open>
  A request whose signature is good for its raw body: stripe.ts handles the event, api.js
  answers 400. A request whose signature is bad: both answer 400.
\<close>

theorem C6_raw_body_verification_witness:
  "isl (sample_verify (req_body (sample_request ''bad''))
          (stripe_signature (sample_request ''bad'')) ''whsec'')
   \<and> webhook_ts sample_verify ''whsec'' (sample_request ''bad'') (Resolved ()) =
       (\<lparr>status = 400,
         body = Text (''Webhook Error: '' @
                  ''No signatures found matching the expected signature for payload'')\<rparr>,
        [LogError ''Webhook signature verification failed:''
           (Error ''No signatures found matching the expected signature for payload'')])
   \<and> status (fst (webhook_js sample_verify ''whsec'' (sample_request ''bad''))) = 400
   \<and> status (fst (webhook_ts sample_verify ''whsec'' (sample_request ''good'') (Resolved ())))
       = 200
   \<and> status (fst (webhook_js sample_verify ''whsec'' (sample_request ''good''))) = 400"
  using C6_raw_body_verification
      [of sample_verify "sample_request ''bad''" "''whsec''" "Resolved ()"]
    C6_raw_body_verification
      [of sample_verify "sample_request ''good''" "''whsec''" "Resolved ()"]
  by (simp add: sample_defs webhook_defs Let_def)

subsection \<open>C7: a top-up followed by a purchase\<close>




subsection \<open>C8: the boundary between buying and being blocked\<close>

text \<open>
  C8. For a signed-in user and a price above 0. With a balance equal to the price, both
  dialogs pass the check and make the purchase call, and when it resolves the purchase is
  reported as successful and the balance is 0. With a balance of the price minus 1,
  neither dialog makes the purchase call: the first shows \<open>Insufficient balance\<close> for a
  shortfall of 1, the second starts a recharge of 1.
\<close>

theorem C8_balance_boundary:
  assumes "0 < price d"
  shows "(userBalance s = price d \<longrightarrow>
            fst (handlePurchase_begin (Some u) d s) = AwaitingPurchase
          \<and> handlePurchase (Some u) d (Resolved ()) s =
              (s\<lparr>userBalance := 0, isPurchasing := False\<rparr>,
               [CallPurchaseDeck (user_id u) (deck_id d) (price d),
                ShowToast success_toast, OnClose])
          \<and> fst (handlePurchase2_begin (Some u) d session s) = AwaitingPurchase
          \<and> handlePurchase2 (Some u) d (Resolved ()) session s =
              (s\<lparr>userBalance := 0, isPurchasing := False\<rparr>,
               [CallProcessDeckPurchase (user_id u) (deck_id d) (price d),
                ShowToast success_toast, OnClose]))
       \<and> (userBalance s = price d - 1 \<longrightarrow>
            handlePurchase (Some u) d r s =
              (s\<lparr>isPurchasing := False\<rparr>, [ShowToast (insufficient_toast 1)])
          \<and> fst (handlePurchase2 (Some u) d r session s) = s\<lparr>isPurchasing := False\<rparr>
          \<and> snd (handlePurchase2 (Some u) d r session s) = handleRecharge (Some u) d session s
          \<and> (\<exists>rest. handleRecharge (Some u) d session s =
                CallCreateCreditCheckoutSession (user_id u) 1 # rest))"
  using assms by (simp add: dialog_defs Let_def)

theorem C8_balance_boundary_witness:
  "0 < price (sample_deck 7)
   \<and> userBalance (sample_state 7) = price (sample_deck 7)
   \<and> handlePurchase (Some sample_user) (sample_deck 7) (Resolved ()) (sample_state 7) =
       (sample_state 0, [CallPurchaseDeck ''u1'' ''d1'' 7, ShowToast success_toast, OnClose])
   \<and> userBalance (sample_state 6) = price (sample_deck 7) - 1
   \<and> handlePurchase (Some sample_user) (sample_deck 7) (Resolved ()) (sample_state 6) =
       (sample_state 6, [ShowToast (insufficient_toast 1)])"
  using C8_balance_boundary
      [of "sample_deck 7" "sample_state 7" sample_user "Resolved None" "Resolved ()"]
    C8_balance_boundary
      [of "sample_deck 7" "sample_state 6" sample_user "Resolved None" "Resolved ()"]
  by (simp add: sample_defs)

subsection \<open>C9: the amount sent to the payment processor\<close>

text \<open>
  C9, as the code has it. Both checkout routes take the amount as a JavaScript number of
  major currency units and send \<open>Math.round(amount * 100)\<close>, computed in double
  arithmetic. For every whole number \<open>k\<close> of minor units with \<open>0 \<le> k \<le> 10 ^ 12\<close>, the
  double nearest to \<open>k / 100\<close> is sent as exactly \<open>k\<close>. A missing amount is sent as
  \<open>NaN\<close>.
\<close>

theorem C9_unit_amount_is_rounded:
  assumes "0 \<le> k" and "k \<le> 10 ^ 12"
  shows "List.map_filter checkout_amount
           (snd (create_checkout_session_js userId (double (of_int k / 100)) created))
           = [Finite (of_int k)]
       \<and> List.map_filter checkout_amount
           (snd (create_checkout_session_ts deckId userId deckTitle
                   (double (of_int k / 100)) created))
           = [Finite (of_int k)]
       \<and> List.map_filter checkout_amount
           (snd (create_checkout_session_js userId amount created))
           = [Math_round (js_times amount (Finite 100))]
       \<and> List.map_filter checkout_amount
           (snd (create_checkout_session_ts deckId userId deckTitle amount created))
           = [Math_round (js_times amount (Finite 100))]
       \<and> List.map_filter checkout_amount
           (snd (create_checkout_session_js userId NaN created)) = [NaN]"
proof -
  have js: "List.map_filter checkout_amount
          (snd (create_checkout_session_js userId x created))
        = [Math_round (js_times x (Finite 100))]" for x
    by (cases created)
      (simp_all add: create_checkout_session_js_def Let_def List.map_filter_simps)
  have ts: "List.map_filter checkout_amount
          (snd (create_checkout_session_ts deckId userId deckTitle x created))
        = [Math_round (js_times x (Finite 100))]" for x
    by (cases created)
      (simp_all add: create_checkout_session_ts_def Let_def List.map_filter_simps)
  have r: "Math_round (js_times (double (of_int k / 100)) (Finite 100)) = Finite (of_int k)"
    using assms by (rule cents_roundtrip)
  show ?thesis by (simp add: js ts r)
qed

text \<open>19.99 is sent as 1999.\<close>

theorem C9_unit_amount_is_rounded_witness:
  "(0::int) \<le> 1999 \<and> (1999::int) \<le> 10 ^ 12
   \<and> List.map_filter checkout_amount
       (snd (create_checkout_session_js ''u1'' (double (rat_of_int 1999 / 100))
               (Resolved (Some ''https://c''))))
       = [Finite 1999]"
proof -
  have h: "(0::int) \<le> 1999" "(1999::int) \<le> 10 ^ 12" by simp_all
  have "List.map_filter checkout_amount
       (snd (create_checkout_session_js ''u1'' (double (rat_of_int 1999 / 100))
               (Resolved (Some ''https://c''))))
       = [Finite (of_int 1999)]"
    using C9_unit_amount_is_rounded
      [OF h, where userId = "''u1''" and created = "Resolved (Some ''https://c'')"]
    by (rule conjunct1)
  then show ?thesis using h by simp
qed

text \<open>
  An amount of 500 is sent as 50000, not as 500 minor units; an amount of 0.125, which is
  12.5 minor units, is sent as 13; an amount of 0.015, which is 1.5 minor units, is sent
  as 2.
\<close>

theorem C9_not_minor_units_counterexample:
  "List.map_filter checkout_amount
     (snd (create_checkout_session_js ''u1'' (double 500) (Resolved (Some ''https://c''))))
     = [Finite 50000]
   \<and> List.map_filter checkout_amount
       (snd (create_checkout_session_ts ''d1'' ''u1'' ''Deck'' (double (1 / 8))
               (Resolved (Some ''https://c'')))) = [Finite 13]
   \<and> List.map_filter checkout_amount
       (snd (create_checkout_session_js ''u1'' (double (15 / 1000))
               (Resolved (Some ''https://c'')))) = [Finite 2]"
  by code_simp

subsection \<open>C10: a failed purchase call\<close>

text \<open>
  C10. When the purchase call rejects during \<open>handlePurchase\<close>, in either dialog, the
  displayed balance is the one from before the attempt: the decrement by the deck price is
  made only after the call has resolved.
\<close>

theorem C10_failed_purchase_keeps_balance:
  "userBalance (fst (handlePurchase usr d (Rejected e) s)) = userBalance s
   \<and> userBalance (fst (handlePurchase2 usr d (Rejected e) session s)) = userBalance s"
  by (simp add: dialog_defs Let_def split: option.split)

theorem C10_failed_purchase_keeps_balance_witness:
  "userBalance (fst (handlePurchase (Some sample_user) (sample_deck 7)
                       (Rejected (Error ''network'')) (sample_state 10))) = 10"
  using C10_failed_purchase_keeps_balance
    [of "Some sample_user" "sample_deck 7" "Error ''network''" "sample_state 10"]
  by (simp add: sample_defs)

end
